theory Spec2Isabelle
  imports Main
begin

section \<open>The indoor-media server (backend/server.js)\<close>

text \<open>
  The server keeps two MongoDB collections through Mongoose, Playlist and Monitor, and
  a directory \<^verbatim>\<open>uploads/\<close> written by multer. Every route handler is embedded
  as a function from the state before the request to the state after it and the
  response sent. The state holds the two collections in insertion order and the files
  of the upload directory.

  What the handlers call but the repository does not contain is library code. It is
  modelled as follows.
  \<^item> An ObjectId is kept as the string its \<^verbatim>\<open>toString()\<close> gives. The cast of a
    request parameter to an ObjectId is an argument \<open>cast\<close> of every handler that looks
    a document up; \<open>None\<close> is the CastError the query rejects with.
  \<^item> The ObjectId a new document or subdocument receives is generated by the driver; it
    is an argument of the handler that creates it.
  \<^item> \<^verbatim>\<open>Date.now()\<close> is an argument too: each uploaded file carries the millisecond
    at which multer names it.
  \<^item> A document exposes accessors for the paths of its schema only. Reading another
    property gives \<^verbatim>\<open>undefined\<close>; assigning one does not change the document that
    \<^verbatim>\<open>save()\<close> persists and \<^verbatim>\<open>res.json\<close> serialises.
  \<^item> The connection to the database is taken to be up: the only exceptions modelled are
    the ones the handlers' own expressions raise (a cast, a property read on
    \<^verbatim>\<open>undefined\<close>, a duplicate key).
  The version key \<^verbatim>\<open>__v\<close> is left out of the documents. The routes embedded are
  the ones that change a monitor, a playlist's media or the stored files, and the two
  deletions; the list routes and \<^verbatim>\<open>POST /playlists\<close> are not.
\<close>

subsection \<open>JavaScript values\<close>

text \<open>
  The values a parsed JSON body holds, and \<^verbatim>\<open>undefined\<close>. A number is an integer
  here: the handlers only test a number for zero and print it.
\<close>

datatype jsval =
    JUndefined
  | JNull
  | JBool bool
  | JNum int
  | JStr string
  | JArr "jsval list"
  | JObj "(string \<times> jsval) list"

text \<open>
  \<open>req.body\<close> after \<^verbatim>\<open>express.json()\<close>: the members of the object in the order
  they were written. \<^verbatim>\<open>JSON.parse\<close> keeps the last of two members with one key.
  \<^verbatim>\<open>const { k } = req.body\<close> binds \<open>member_of b k\<close>, which is
  \<^verbatim>\<open>undefined\<close> when the body has no member \<open>k\<close>.
\<close>

type_synonym body = "(string \<times> jsval) list"

definition member_of :: "body \<Rightarrow> string \<Rightarrow> jsval" where
  "member_of b k = (case map_of (rev b) k of None \<Rightarrow> JUndefined | Some v \<Rightarrow> v)"

text \<open>JavaScript's \<^verbatim>\<open>!v\<close> is \<open>\<not> truthy v\<close>.\<close>

fun truthy :: "jsval \<Rightarrow> bool" where
  "truthy JUndefined = False"
| "truthy JNull = False"
| "truthy (JBool b) = b"
| "truthy (JNum n) = (n \<noteq> 0)"
| "truthy (JStr s) = (s \<noteq> [])"
| "truthy (JArr xs) = True"
| "truthy (JObj ms) = True"

subsection \<open>Numbers as text, file extensions\<close>

text \<open>
  The decimal text of a number, as string concatenation and \<^verbatim>\<open>toString()\<close> give it
  (for a natural number below \<open>10^21\<close>, which every \<^verbatim>\<open>Date.now()\<close> is).
\<close>

definition digit :: "nat \<Rightarrow> char" where
  "digit d = ''0123456789'' ! d"

fun dec :: "nat \<Rightarrow> string" where
  "dec n = (if n < 10 then [digit n] else dec (n div 10) @ [digit (n mod 10)])"

declare dec.simps [simp del]

definition dec_int :: "int \<Rightarrow> string" where
  "dec_int n = (if n < 0 then CHR ''-'' # dec (nat (- n)) else dec (nat n))"

text \<open>
  Node's \<^verbatim>\<open>path.extname\<close> (POSIX): within the last segment of the path, the text from
  the last dot on; empty when the segment has no dot, when its only dot is its first
  character, and for the segment \<^verbatim>\<open>..\<close>.
\<close>

definition last_segment :: "string \<Rightarrow> string" where
  "last_segment p =
     rev (takeWhile (\<lambda>c. c \<noteq> CHR ''/'') (dropWhile (\<lambda>c. c = CHR ''/'') (rev p)))"

definition extname :: "string \<Rightarrow> string" where
  "extname p =
     (let seg = last_segment p;
          after_dot = rev (takeWhile (\<lambda>c. c \<noteq> CHR ''.'') (rev seg))
      in if CHR ''.'' \<notin> set seg then []
         else if Suc (length after_dot) = length seg then []
         else if seg = ''..'' then []
         else CHR ''.'' # after_dot)"

subsection \<open>Documents and state\<close>

type_synonym objectid = string

datatype error = CastError | TypeError | ValidationError | DuplicateKey

text \<open>playlistSchema, lines 30-38: a name and the embedded array \<open>midias\<close> of name and url.\<close>

record midia =
  midia_id :: objectid
  midia_name :: "string option"
  midia_url :: "string option"

record playlist =
  pl_id :: objectid
  pl_name :: "string option"
  midias :: "midia list"

text \<open>monitorSchema, lines 146-152: a name and one reference \<open>playlist\<close>.\<close>

record monitor =
  mon_id :: objectid
  mon_name :: "string option"
  mon_playlist :: "objectid option"

record state =
  playlists :: "playlist list"
  monitors :: "monitor list"
  uploads :: "string \<rightharpoonup> string"

subsection \<open>Responses\<close>

text \<open>The message texts of the source, by name.\<close>

datatype message =
    PlaylistExcluida
  | ErroExcluirPlaylist
  | PlaylistNaoEncontrada
  | ErroUploadMidia
  | ErroExcluirMidia
  | ErroCriarMonitor
  | MonitorNaoEncontrado
  | MonitorExcluido
  | ErroExcluirMonitor
  | PlaylistIdObrigatorio
  | PlaylistJaAssociada
  | ErroAssociarPlaylist
  | ErroAtualizarMonitor

datatype payload =
    Msg message
  | MsgError message error
  | Plain message
  | MidiasJson "midia list"
  | MonitorJson monitor
  | DeletedJson message monitor

record response =
  status :: nat
  payload :: payload

definition respond :: "nat \<Rightarrow> payload \<Rightarrow> response" where
  "respond c p = \<lparr>status = c, payload = p\<rparr>"

subsection \<open>Mongoose queries\<close>

fun deleteOne :: "('d \<Rightarrow> bool) \<Rightarrow> 'd list \<Rightarrow> 'd list" where
  "deleteOne P [] = []"
| "deleteOne P (d # ds) = (if P d then ds else d # deleteOne P ds)"

definition findById ::
  "(string \<Rightarrow> objectid option) \<Rightarrow> ('d \<Rightarrow> objectid) \<Rightarrow> 'd list \<Rightarrow> string \<Rightarrow> error + 'd option" where
  "findById cast key docs i =
     (case cast i of
        None \<Rightarrow> Inl CastError
      | Some oid \<Rightarrow> Inr (find (\<lambda>d. key d = oid) docs))"

definition findByIdAndDelete ::
  "(string \<Rightarrow> objectid option) \<Rightarrow> ('d \<Rightarrow> objectid) \<Rightarrow> 'd list \<Rightarrow> string
     \<Rightarrow> error + ('d option \<times> 'd list)" where
  "findByIdAndDelete cast key docs i =
     (case cast i of
        None \<Rightarrow> Inl CastError
      | Some oid \<Rightarrow>
          Inr (find (\<lambda>d. key d = oid) docs, deleteOne (\<lambda>d. key d = oid) docs))"

text \<open>
  \<^verbatim>\<open>doc.save()\<close> of a document that was read from the collection: the stored
  document with its \<open>_id\<close> is replaced.
\<close>

fun updateOne :: "('d \<Rightarrow> bool) \<Rightarrow> 'd \<Rightarrow> 'd list \<Rightarrow> 'd list" where
  "updateOne P d [] = []"
| "updateOne P d (x # xs) = (if P x then d # xs else x # updateOne P d xs)"

definition save_doc :: "('d \<Rightarrow> objectid) \<Rightarrow> 'd \<Rightarrow> 'd list \<Rightarrow> 'd list" where
  "save_doc key d docs = updateOne (\<lambda>x. key x = key d) d docs"

text \<open>
  \<^verbatim>\<open>new Model(fields).save()\<close>: the insert is refused when the collection already
  holds a document with the new \<open>_id\<close>.
\<close>

definition insert_doc :: "('d \<Rightarrow> objectid) \<Rightarrow> 'd \<Rightarrow> 'd list \<Rightarrow> error + 'd list" where
  "insert_doc key d docs =
     (if key d \<in> set (map key docs) then Inl DuplicateKey else Inr (docs @ [d]))"

text \<open>
  The cast of a value to a path of type String: \<^verbatim>\<open>undefined\<close> leaves the path
  unset, a string, a boolean and a number give their text, an object gives its member
  \<open>_id\<close> when that is a non-empty string, and anything else is a cast error, which
  \<^verbatim>\<open>save()\<close> reports as a validation error. Two simplifications: \<^verbatim>\<open>null\<close> is
  stored as \<^verbatim>\<open>null\<close>, which the documents here do not tell from an unset path
  (both are \<open>None\<close>); and the text of a number is its decimal text, which is what
  JavaScript prints for the integers a double holds exactly (up to \<open>2^53\<close>).
\<close>

fun castString :: "jsval \<Rightarrow> error + string option" where
  "castString JUndefined = Inr None"
| "castString JNull = Inr None"
| "castString (JBool b) = Inr (Some (if b then ''true'' else ''false''))"
| "castString (JNum n) = Inr (Some (dec_int n))"
| "castString (JStr s) = Inr (Some s)"
| "castString (JArr xs) = Inl ValidationError"
| "castString (JObj ms) =
     (case map_of (rev ms) ''_id'' of
        Some (JStr s) \<Rightarrow> if s = [] then Inl ValidationError else Inr (Some s)
      | _ \<Rightarrow> Inl ValidationError)"

text \<open>
  The JavaScript object a query returns for a Monitor: the document's data, and the
  properties set on the object that are no paths of monitorSchema. Only the data is
  persisted by \<^verbatim>\<open>save()\<close> and serialised by \<^verbatim>\<open>res.json\<close>.
\<close>

record monitor_obj =
  doc :: monitor
  props :: "(string \<times> jsval) list"

definition hydrate :: "monitor \<Rightarrow> monitor_obj" where
  "hydrate m = \<lparr>doc = m, props = []\<rparr>"

definition prop_get :: "monitor_obj \<Rightarrow> string \<Rightarrow> jsval" where
  "prop_get obj p = (case map_of (props obj) p of None \<Rightarrow> JUndefined | Some v \<Rightarrow> v)"

definition prop_set :: "monitor_obj \<Rightarrow> string \<Rightarrow> jsval \<Rightarrow> monitor_obj" where
  "prop_set obj p v = obj\<lparr>props := (p, v) # props obj\<rparr>"

subsection \<open>DELETE /playlists/:id (lines 75-84)\<close>

definition delete_playlist ::
  "(string \<Rightarrow> objectid option) \<Rightarrow> state \<Rightarrow> string \<Rightarrow> state \<times> response" where
  "delete_playlist cast s i =
     (case findByIdAndDelete cast pl_id (playlists s) i of
        Inl e \<Rightarrow> (s, respond 500 (Msg ErroExcluirPlaylist))
      | Inr (deleted, rest) \<Rightarrow>
          (s\<lparr>playlists := rest\<rparr>, respond 200 (Msg PlaylistExcluida)))"

subsection \<open>DELETE /monitores/:id (lines 181-198)\<close>

definition delete_monitor ::
  "(string \<Rightarrow> objectid option) \<Rightarrow> state \<Rightarrow> string \<Rightarrow> state \<times> response" where
  "delete_monitor cast s i =
     (case findByIdAndDelete cast mon_id (monitors s) i of
        Inl e \<Rightarrow> (s, respond 500 (Msg ErroExcluirMonitor))
      | Inr (None, rest) \<Rightarrow> (s\<lparr>monitors := rest\<rparr>, respond 404 (Msg MonitorNaoEncontrado))
      | Inr (Some deletedMonitor, rest) \<Rightarrow>
          (s\<lparr>monitors := rest\<rparr>, respond 200 (DeletedJson MonitorExcluido deletedMonitor)))"

subsection \<open>POST /monitores (lines 168-179)\<close>

text \<open>\<open>newid\<close> is the ObjectId the driver generates for the new document.\<close>

definition create_monitor :: "state \<Rightarrow> objectid \<Rightarrow> body \<Rightarrow> state \<times> response" where
  "create_monitor s newid b =
     (let name = member_of b ''name'' in
      case castString name of
        Inl e \<Rightarrow> (s, respond 500 (Msg ErroCriarMonitor))
      | Inr n \<Rightarrow>
          (let newMonitor = \<lparr>mon_id = newid, mon_name = n, mon_playlist = None\<rparr> in
           case insert_doc mon_id newMonitor (monitors s) of
             Inl e \<Rightarrow> (s, respond 500 (Msg ErroCriarMonitor))
           | Inr docs \<Rightarrow> (s\<lparr>monitors := docs\<rparr>, respond 201 (MonitorJson newMonitor))))"

subsection \<open>POST /monitores/:monitorId/playlists (lines 201-238)\<close>

text \<open>
  \<open>playlists\<close> is no path of monitorSchema, so \<^verbatim>\<open>monitor.playlists\<close> is a plain
  property read of the object the query returned. Reading \<^verbatim>\<open>.includes\<close> of
  \<^verbatim>\<open>undefined\<close> or \<^verbatim>\<open>null\<close> throws a TypeError, which the handler's
  \<^verbatim>\<open>catch\<close> answers with 500. The branch for an array follows lines 218-230. An
  object that a query returns has no property outside the schema, so that branch is
  never taken (lemma \<open>link_found_throws\<close> below).
\<close>

definition link ::
  "(string \<Rightarrow> objectid option) \<Rightarrow> state \<Rightarrow> string \<Rightarrow> body \<Rightarrow> state \<times> response" where
  "link cast s monitorId b =
     (let playlistId = member_of b ''playlistId'' in
      if \<not> truthy playlistId then (s, respond 400 (Msg PlaylistIdObrigatorio))
      else
        case findById cast mon_id (monitors s) monitorId of
          Inl e \<Rightarrow> (s, respond 500 (MsgError ErroAssociarPlaylist e))
        | Inr None \<Rightarrow> (s, respond 404 (Msg MonitorNaoEncontrado))
        | Inr (Some found) \<Rightarrow>
            (let monitor = hydrate found in
             case prop_get monitor ''playlists'' of
               JArr ps \<Rightarrow>
                 if playlistId \<in> set ps then (s, respond 400 (Msg PlaylistJaAssociada))
                 else
                   (let monitor' = prop_set monitor ''playlists'' (JArr (ps @ [playlistId]))
                    in (s\<lparr>monitors := save_doc mon_id (doc monitor') (monitors s)\<rparr>,
                        respond 200 (MonitorJson (doc monitor'))))
             | _ \<Rightarrow> (s, respond 500 (MsgError ErroAssociarPlaylist TypeError))))"

subsection \<open>PUT /monitores/:monitorId/playlists (lines 242-262)\<close>

text \<open>
  \<open>playlistId\<close> is no path of monitorSchema either: line 254 sets a property of the
  object, and \<^verbatim>\<open>save()\<close> and \<^verbatim>\<open>res.json\<close> work on the document's data.
\<close>

definition relink ::
  "(string \<Rightarrow> objectid option) \<Rightarrow> state \<Rightarrow> string \<Rightarrow> body \<Rightarrow> state \<times> response" where
  "relink cast s monitorId b =
     (let playlistId = member_of b ''playlistId'' in
      case findById cast mon_id (monitors s) monitorId of
        Inl e \<Rightarrow> (s, respond 500 (Plain ErroAtualizarMonitor))
      | Inr None \<Rightarrow> (s, respond 404 (Plain MonitorNaoEncontrado))
      | Inr (Some found) \<Rightarrow>
          (let monitor = prop_set (hydrate found) ''playlistId'' playlistId
           in (s\<lparr>monitors := save_doc mon_id (doc monitor) (monitors s)\<rparr>,
               respond 200 (MonitorJson (doc monitor)))))"

subsection \<open>multer.diskStorage (lines 87-96)\<close>

text \<open>
  One file of a multipart request: its original name, its bytes, and the value of
  \<^verbatim>\<open>Date.now()\<close> when multer asks for its file name. The disk write creates the
  file or replaces the file of that name.
\<close>

record part =
  originalname :: string
  content :: string
  arrival :: nat

record stored_file =
  file_originalname :: string
  file_filename :: string

definition filename :: "part \<Rightarrow> string" where
  "filename p = dec (arrival p) @ extname (originalname p)"

definition disk_write :: "state \<Rightarrow> part \<Rightarrow> state" where
  "disk_write s p = s\<lparr>uploads := (uploads s)(filename p \<mapsto> content p)\<rparr>"



subsection \<open>POST /playlists/:id/midias (lines 99-123)\<close>

text \<open>
  Assigning plain objects to the path \<open>midias\<close> makes a subdocument of each, with an
  \<open>_id\<close> of its own: \<open>newid k\<close> is the ObjectId the \<open>k\<close>-th new subdocument receives.
\<close>

fun subdocs :: "(nat \<Rightarrow> objectid) \<Rightarrow> nat \<Rightarrow> stored_file list \<Rightarrow> midia list" where
  "subdocs newid k [] = []"
| "subdocs newid k (f # fs) =
     \<lparr>midia_id = newid k,
      midia_name = Some (file_originalname f),
      midia_url = Some (''/uploads/'' @ file_filename f)\<rparr> # subdocs newid (Suc k) fs"


subsection \<open>DELETE /playlists/:playlistId/midias/:midiaId (lines 126-144)\<close>

definition remove_media ::
  "(string \<Rightarrow> objectid option) \<Rightarrow> state \<Rightarrow> string \<Rightarrow> string \<Rightarrow> state \<times> response" where
  "remove_media cast s playlistId midiaId =
     (case findById cast pl_id (playlists s) playlistId of
        Inl e \<Rightarrow> (s, respond 500 (Plain ErroExcluirMidia))
      | Inr None \<Rightarrow> (s, respond 404 (Plain PlaylistNaoEncontrada))
      | Inr (Some playlist) \<Rightarrow>
          (let playlist' = playlist\<lparr>midias := filter (\<lambda>midia. midia_id midia \<noteq> midiaId) (midias playlist)\<rparr>
           in (s\<lparr>playlists := save_doc pl_id playlist' (playlists s)\<rparr>,
               respond 200 (MidiasJson (midias playlist')))))"

subsection \<open>A cast and a state to run the handlers on\<close>

text \<open>
  The cast of a string of 24 hexadecimal digits, which every version of the driver
  accepts; the ObjectId prints in lower case.
\<close>

definition lower_hex :: "char \<Rightarrow> char" where
  "lower_hex c =
     (if c = CHR ''A'' then CHR ''a'' else if c = CHR ''B'' then CHR ''b''
      else if c = CHR ''C'' then CHR ''c'' else if c = CHR ''D'' then CHR ''d''
      else if c = CHR ''E'' then CHR ''e'' else if c = CHR ''F'' then CHR ''f'' else c)"

definition hex24 :: "string \<Rightarrow> objectid option" where
  "hex24 s =
     (if length s = 24 \<and> list_all (\<lambda>c. c \<in> set ''0123456789abcdefABCDEF'') s
      then Some (map lower_hex s) else None)"

definition lobby :: playlist where
  "lobby =
     \<lparr>pl_id = ''650000000000000000000001'', pl_name = Some ''Lobby'',
      midias =
        [\<lparr>midia_id = ''65000000000000000000000a'', midia_name = Some ''a.png'',
          midia_url = Some ''/uploads/1700000000000.png''\<rparr>,
         \<lparr>midia_id = ''65000000000000000000000b'', midia_name = Some ''b.png'',
          midia_url = Some ''/uploads/1700000000001.png''\<rparr>]\<rparr>"

definition screen :: monitor where
  "screen =
     \<lparr>mon_id = ''660000000000000000000001'', mon_name = Some ''Lobby Screen'',
      mon_playlist = Some ''650000000000000000000001''\<rparr>"

definition kiosk :: monitor where
  "kiosk =
     \<lparr>mon_id = ''660000000000000000000002'', mon_name = Some ''Kiosk'', mon_playlist = None\<rparr>"

definition example :: state where
  "example =
     \<lparr>playlists = [lobby], monitors = [screen, kiosk],
      uploads = [''1700000000000.png'' \<mapsto> ''A'', ''1700000000001.png'' \<mapsto> ''B'']\<rparr>"


definition file_c :: part where
  "file_c = \<lparr>originalname = ''c.png'', content = ''C'', arrival = 1700000000005\<rparr>"

definition file_d :: part where
  "file_d = \<lparr>originalname = ''d.jpeg'', content = ''D'', arrival = 1700000000006\<rparr>"

definition file_e :: part where
  "file_e = \<lparr>originalname = ''e.png'', content = ''E'', arrival = 1700000000005\<rparr>"

section \<open>Properties\<close>

subsection \<open>Queries and casts\<close>

lemma deleteOne_none: "find P ds = None \<Longrightarrow> deleteOne P ds = ds"
  by (induction ds) (auto split: if_splits)

lemma updateOne_same: "find P ds = Some d \<Longrightarrow> updateOne P d ds = ds"
  by (induction ds) (auto split: if_splits)

lemma find_updateOne:
  "find P ds = Some d \<Longrightarrow> P d' \<Longrightarrow> find P (updateOne P d' ds) = Some d'"
  by (induction ds) (auto split: if_splits)

lemma find_key: "find (\<lambda>x. key x = oid) ds = Some d \<Longrightarrow> key d = oid"
  by (auto simp: find_Some_iff)

lemma save_doc_found: "find (\<lambda>x. key x = oid) ds = Some d \<Longrightarrow> save_doc key d ds = ds"
proof -
  assume f: "find (\<lambda>x. key x = oid) ds = Some d"
  then have "key d = oid" by (rule find_key)
  with f show ?thesis by (simp add: save_doc_def updateOne_same)
qed

lemma find_save_doc:
  assumes "find (\<lambda>x. key x = oid) ds = Some d" and "key d' = oid"
  shows "find (\<lambda>x. key x = oid) (save_doc key d' ds) = Some d'"
  using assms find_updateOne [of "\<lambda>x. key x = oid" ds d d'] by (simp add: save_doc_def)

lemma member_of_absent: "k \<notin> set (map fst b) \<Longrightarrow> member_of b k = JUndefined"
proof -
  assume "k \<notin> set (map fst b)"
  then have "map_of (rev b) k = None"
    by (simp add: map_of_eq_None_iff)
  then show ?thesis
    by (simp add: member_of_def)
qed

lemma hex24_lobby: "hex24 ''650000000000000000000001'' = Some ''650000000000000000000001''"
  by (simp add: hex24_def lower_hex_def)

lemma hex24_screen: "hex24 ''660000000000000000000001'' = Some ''660000000000000000000001''"
  by (simp add: hex24_def lower_hex_def)

lemma hex24_other: "hex24 ''650000000000000000000002'' = Some ''650000000000000000000002''"
  by (simp add: hex24_def lower_hex_def)

lemma hex24_kiosk: "hex24 ''660000000000000000000002'' = Some ''660000000000000000000002''"
  by (simp add: hex24_def lower_hex_def)

lemma hex24_abc: "hex24 ''abc'' = None"
  by (simp add: hex24_def)

lemma find_lobby:
  "find (\<lambda>p. pl_id p = ''650000000000000000000001'') (playlists example) = Some lobby"
  by (simp add: example_def lobby_def)

lemma find_kiosk:
  "find (\<lambda>m. mon_id m = ''660000000000000000000002'') (monitors example) = Some kiosk"
  by (simp add: example_def screen_def kiosk_def)

subsection \<open>Deleting a playlist, deleting a monitor\<close>

text \<open>
  Claim C5, as stated, for every id: deleting a playlist answers 200. The request
  \<^verbatim>\<open>DELETE /playlists/abc\<close> is answered 500: \<^verbatim>\<open>abc\<close> is no ObjectId, the
  query rejects with a CastError and the handler's \<^verbatim>\<open>catch\<close> sends the error.
\<close>

theorem delete_playlist_malformed_id:
  "status (snd (delete_playlist hex24 example ''abc'')) = 500"
  by (simp add: delete_playlist_def findByIdAndDelete_def hex24_abc respond_def)

text \<open>
  Claim C5, amended: for every id that casts to an ObjectId, deleting a playlist answers
  200 whether or not a playlist has that id, and changes nothing when none has;
  deleting a monitor answers 404 and changes nothing when no monitor has the id, and
  answers 200 with the deleted monitor, which is removed, when one has.
\<close>

theorem delete_by_entity:
  assumes "cast i = Some oid"
  shows "status (snd (delete_playlist cast s i)) = 200 \<and>
         (find (\<lambda>p. pl_id p = oid) (playlists s) = None \<longrightarrow> fst (delete_playlist cast s i) = s) \<and>
         (find (\<lambda>m. mon_id m = oid) (monitors s) = None \<longrightarrow>
            delete_monitor cast s i = (s, respond 404 (Msg MonitorNaoEncontrado))) \<and>
         (\<forall>m. find (\<lambda>m. mon_id m = oid) (monitors s) = Some m \<longrightarrow>
            delete_monitor cast s i =
              (s\<lparr>monitors := deleteOne (\<lambda>m. mon_id m = oid) (monitors s)\<rparr>,
               respond 200 (DeletedJson MonitorExcluido m)))"
proof -
  have "status (snd (delete_playlist cast s i)) = 200"
    using assms by (simp add: delete_playlist_def findByIdAndDelete_def respond_def)
  moreover have "fst (delete_playlist cast s i) = s"
    if "find (\<lambda>p. pl_id p = oid) (playlists s) = None"
    using assms that by (simp add: delete_playlist_def findByIdAndDelete_def deleteOne_none)
  moreover have "delete_monitor cast s i = (s, respond 404 (Msg MonitorNaoEncontrado))"
    if "find (\<lambda>m. mon_id m = oid) (monitors s) = None"
    using assms that by (simp add: delete_monitor_def findByIdAndDelete_def deleteOne_none)
  moreover have "delete_monitor cast s i =
      (s\<lparr>monitors := deleteOne (\<lambda>m. mon_id m = oid) (monitors s)\<rparr>,
       respond 200 (DeletedJson MonitorExcluido m))"
    if "find (\<lambda>m. mon_id m = oid) (monitors s) = Some m" for m
    using assms that by (simp add: delete_monitor_def findByIdAndDelete_def)
  ultimately show ?thesis by blast
qed

theorem delete_by_entity_witness:
  "hex24 ''650000000000000000000002'' = Some ''650000000000000000000002'' \<and>
   find (\<lambda>p. pl_id p = ''650000000000000000000002'') (playlists example) = None \<and>
   find (\<lambda>m. mon_id m = ''650000000000000000000002'') (monitors example) = None \<and>
   status (snd (delete_playlist hex24 example ''650000000000000000000002'')) = 200 \<and>
   fst (delete_playlist hex24 example ''650000000000000000000002'') = example \<and>
   delete_monitor hex24 example ''650000000000000000000002'' =
     (example, respond 404 (Msg MonitorNaoEncontrado)) \<and>
   hex24 ''660000000000000000000001'' = Some ''660000000000000000000001'' \<and>
   find (\<lambda>m. mon_id m = ''660000000000000000000001'') (monitors example) = Some screen \<and>
   delete_monitor hex24 example ''660000000000000000000001'' =
     (example\<lparr>monitors := [kiosk]\<rparr>, respond 200 (DeletedJson MonitorExcluido screen))"
proof -
  have p: "find (\<lambda>p. pl_id p = ''650000000000000000000002'') (playlists example) = None"
    by (simp add: example_def lobby_def)
  have m: "find (\<lambda>m. mon_id m = ''650000000000000000000002'') (monitors example) = None"
    by (simp add: example_def screen_def kiosk_def)
  have f: "find (\<lambda>m. mon_id m = ''660000000000000000000001'') (monitors example) = Some screen"
    by (simp add: example_def screen_def)
  have d: "deleteOne (\<lambda>m. mon_id m = ''660000000000000000000001'') (monitors example) = [kiosk]"
    by (simp add: example_def screen_def)
  from delete_by_entity [where cast = hex24 and s = example, OF hex24_other]
    delete_by_entity [where cast = hex24 and s = example, OF hex24_screen] p m f d
  show ?thesis
    by (simp add: hex24_other hex24_screen)
qed

text \<open>
  Claim C9: for every playlist id, deleting that playlist leaves every monitor document
  as it was; a monitor that references the deleted playlist keeps the reference.
\<close>

theorem delete_playlist_keeps_monitors:
  "monitors (fst (delete_playlist cast s i)) = monitors s"
  by (simp add: delete_playlist_def findByIdAndDelete_def split: option.splits)

theorem delete_playlist_dangling:
  "monitors (fst (delete_playlist hex24 example ''650000000000000000000001'')) = [screen, kiosk] \<and>
   mon_playlist screen = Some ''650000000000000000000001'' \<and>
   playlists (fst (delete_playlist hex24 example ''650000000000000000000001'')) = []"
proof -
  have "monitors example = [screen, kiosk]" by (simp add: example_def)
  with delete_playlist_keeps_monitors [of hex24 example "''650000000000000000000001''"]
  show ?thesis
    by (simp add: delete_playlist_def findByIdAndDelete_def hex24_lobby example_def lobby_def
        screen_def)
qed

subsection \<open>Creating a monitor\<close>

text \<open>
  Claim C10: a request to create a monitor whose body has no member \<open>name\<close> is answered
  201, and the monitor persisted has no name and no playlist. (\<open>newid\<close>, the ObjectId
  the driver generates, is one no stored monitor has.)
\<close>

theorem create_monitor_without_name:
  assumes "''name'' \<notin> set (map fst b)" and "newid \<notin> set (map mon_id (monitors s))"
  shows "create_monitor s newid b =
           (s\<lparr>monitors := monitors s @ [\<lparr>mon_id = newid, mon_name = None, mon_playlist = None\<rparr>]\<rparr>,
            respond 201 (MonitorJson \<lparr>mon_id = newid, mon_name = None, mon_playlist = None\<rparr>))"
  using member_of_absent [OF assms(1)] assms(2)
  by (simp add: create_monitor_def insert_doc_def Let_def)

theorem create_monitor_without_name_witness:
  "''name'' \<notin> set (map fst []) \<and>
   ''660000000000000000000003'' \<notin> set (map mon_id (monitors example)) \<and>
   create_monitor example ''660000000000000000000003'' [] =
     (example\<lparr>monitors :=
        [screen, kiosk,
         \<lparr>mon_id = ''660000000000000000000003'', mon_name = None, mon_playlist = None\<rparr>]\<rparr>,
      respond 201
        (MonitorJson \<lparr>mon_id = ''660000000000000000000003'', mon_name = None, mon_playlist = None\<rparr>))"
proof -
  have h1: "''name'' \<notin> set (map fst ([] :: body))" by simp
  have h2: "''660000000000000000000003'' \<notin> set (map mon_id (monitors example))"
    by (simp add: example_def screen_def kiosk_def)
  from create_monitor_without_name [OF h1 h2] show ?thesis
    using h2 by (simp add: example_def)
qed

subsection \<open>Linking a playlist to a monitor\<close>

text \<open>
  Claim C8: when the body of a link request has no member \<open>playlistId\<close>, the request is
  answered 400 and the state is the one before the request, whatever the monitor id and
  whatever the collections hold: no monitor is looked up.
\<close>

theorem link_requires_playlistId:
  assumes "''playlistId'' \<notin> set (map fst b)"
  shows "link cast s monitorId b = (s, respond 400 (Msg PlaylistIdObrigatorio))"
  using member_of_absent [OF assms] by (simp add: link_def)

theorem link_requires_playlistId_witness:
  "''playlistId'' \<notin> set (map fst [(''name'', JStr ''x'')]) \<and>
   link hex24 example ''660000000000000000000001'' [(''name'', JStr ''x'')] =
     (example, respond 400 (Msg PlaylistIdObrigatorio))"
proof -
  have h: "''playlistId'' \<notin> set (map fst [(''name'', JStr ''x'')])" by simp
  from link_requires_playlistId [OF h] show ?thesis using h by simp
qed

text \<open>
  A link request that carries a playlist id and names a stored monitor always ends in
  the handler's \<^verbatim>\<open>catch\<close>: the object read from the collection has no property
  \<open>playlists\<close>.
\<close>

lemma link_found_throws:
  assumes "truthy (member_of b ''playlistId'')" and "cast i = Some oid"
    and "find (\<lambda>m. mon_id m = oid) (monitors s) = Some m"
  shows "link cast s i b = (s, respond 500 (MsgError ErroAssociarPlaylist TypeError))"
  using assms by (simp add: link_def findById_def hydrate_def prop_get_def Let_def)

text \<open>
  Claim C1 at the monitor Kiosk, which has no association, and the id of the playlist
  Lobby: the claim has the id appended and persisted; the handler answers 500 and
  changes nothing.
\<close>

theorem link_never_appends:
  "link hex24 example ''660000000000000000000002''
       [(''playlistId'', JStr ''650000000000000000000001'')] =
     (example, respond 500 (MsgError ErroAssociarPlaylist TypeError))"
  by (simp add: link_def findById_def hex24_kiosk find_kiosk hydrate_def prop_get_def
      member_of_def)

subsection \<open>Overwriting a monitor's playlist\<close>

lemma relink_found:
  assumes "cast i = Some oid" and "find (\<lambda>m. mon_id m = oid) (monitors s) = Some m"
  shows "relink cast s i b = (s, respond 200 (MonitorJson m))"
  using assms save_doc_found [OF assms(2)]
  by (simp add: relink_def findById_def hydrate_def prop_set_def Let_def)

lemma relink_keeps_state: "fst (relink cast s i b) = s"
proof (cases "cast i")
  case None
  then show ?thesis by (simp add: relink_def findById_def)
next
  case (Some oid)
  then show ?thesis
  proof (cases "find (\<lambda>m. mon_id m = oid) (monitors s)")
    case None
    with Some show ?thesis by (simp add: relink_def findById_def)
  next
    case (Some m)
    with \<open>cast i = Some oid\<close> show ?thesis by (simp add: relink_found)
  qed
qed

text \<open>
  Claim C2 at the monitor Kiosk and the id of the playlist Lobby: the claim has the
  stored playlist of the monitor overwritten; the handler answers 200 with the monitor
  as it was, and the stored monitor still has no playlist.
\<close>

theorem relink_stores_nothing:
  "relink hex24 example ''660000000000000000000002''
       [(''playlistId'', JStr ''650000000000000000000001'')] =
     (example, respond 200 (MonitorJson kiosk)) \<and>
   mon_playlist kiosk = None"
  using relink_found [where cast = hex24, OF hex24_kiosk find_kiosk] by (simp add: kiosk_def)

subsection \<open>Removing a media item\<close>

lemma filter_no_match: "k \<notin> set (map f xs) \<Longrightarrow> filter (\<lambda>x. f x \<noteq> k) xs = xs"
  by (induction xs) auto

lemma filter_one_match:
  "distinct (map f xs) \<Longrightarrow> m \<in> set xs \<Longrightarrow> filter (\<lambda>x. f x \<noteq> f m) xs = remove1 m xs"
proof (induction xs)
  case Nil
  then show ?case by simp
next
  case (Cons x xs)
  show ?case
  proof (cases "x = m")
    case True
    with Cons.prems have "f m \<notin> set (map f xs)" by simp
    then have "filter (\<lambda>x. f x \<noteq> f m) xs = xs" by (rule filter_no_match)
    with True show ?thesis by simp
  next
    case False
    with Cons.prems have "m \<in> set xs" and "f x \<noteq> f m" and "distinct (map f xs)" by auto
    with Cons.IH False show ?thesis by simp
  qed
qed

lemma remove_media_found:
  assumes "cast playlistId = Some oid"
    and "find (\<lambda>p. pl_id p = oid) (playlists s) = Some p"
  shows "remove_media cast s playlistId midiaId =
           (s\<lparr>playlists :=
                save_doc pl_id (p\<lparr>midias := filter (\<lambda>m. midia_id m \<noteq> midiaId) (midias p)\<rparr>)
                  (playlists s)\<rparr>,
            respond 200 (MidiasJson (filter (\<lambda>m. midia_id m \<noteq> midiaId) (midias p))))"
  using assms by (simp add: remove_media_def findById_def Let_def)

text \<open>
  Claim C4, as stated: when the playlist id does not resolve, removing a media item
  fails with NotFound. The request \<^verbatim>\<open>DELETE /playlists/abc/midias/...\<close> is answered
  500: the lookup rejects with a CastError.
\<close>

theorem remove_media_malformed_id:
  "status (snd (remove_media hex24 example ''abc'' ''65000000000000000000000a'')) = 500"
  by (simp add: remove_media_def findById_def hex24_abc respond_def)

text \<open>
  Claim C4, amended: for a playlist id that casts to an ObjectId, removing a media item
  from a stored playlist answers 200 with, and stores, the playlist's media list
  without the items whose id is the given one, the others in their order; when no item
  has that id nothing changes; when the ids of the list are distinct and an item has
  that id, that one item is removed. When no playlist has the id the answer is 404 and
  nothing changes.
\<close>

theorem remove_media_filters:
  assumes "cast playlistId = Some oid"
  shows "(find (\<lambda>p. pl_id p = oid) (playlists s) = None \<longrightarrow>
            remove_media cast s playlistId midiaId = (s, respond 404 (Plain PlaylistNaoEncontrada))) \<and>
         (\<forall>p. find (\<lambda>p. pl_id p = oid) (playlists s) = Some p \<longrightarrow>
            snd (remove_media cast s playlistId midiaId) =
              respond 200 (MidiasJson (filter (\<lambda>m. midia_id m \<noteq> midiaId) (midias p))) \<and>
            find (\<lambda>p. pl_id p = oid) (playlists (fst (remove_media cast s playlistId midiaId))) =
              Some (p\<lparr>midias := filter (\<lambda>m. midia_id m \<noteq> midiaId) (midias p)\<rparr>) \<and>
            (midiaId \<notin> set (map midia_id (midias p)) \<longrightarrow>
               remove_media cast s playlistId midiaId = (s, respond 200 (MidiasJson (midias p)))) \<and>
            (\<forall>m. distinct (map midia_id (midias p)) \<and> m \<in> set (midias p) \<and> midia_id m = midiaId \<longrightarrow>
               filter (\<lambda>m. midia_id m \<noteq> midiaId) (midias p) = remove1 m (midias p)))"
proof (intro conjI allI impI)
  assume "find (\<lambda>p. pl_id p = oid) (playlists s) = None"
  with assms show "remove_media cast s playlistId midiaId = (s, respond 404 (Plain PlaylistNaoEncontrada))"
    by (simp add: remove_media_def findById_def)
next
  fix p
  assume f: "find (\<lambda>p. pl_id p = oid) (playlists s) = Some p"
  note r = remove_media_found [where cast = cast and midiaId = midiaId, OF assms f]
  show "snd (remove_media cast s playlistId midiaId) =
      respond 200 (MidiasJson (filter (\<lambda>m. midia_id m \<noteq> midiaId) (midias p)))"
    by (simp add: r)
  have "pl_id (p\<lparr>midias := filter (\<lambda>m. midia_id m \<noteq> midiaId) (midias p)\<rparr>) = oid"
    using find_key [OF f] by simp
  from find_save_doc [OF f this]
  show "find (\<lambda>p. pl_id p = oid) (playlists (fst (remove_media cast s playlistId midiaId))) =
      Some (p\<lparr>midias := filter (\<lambda>m. midia_id m \<noteq> midiaId) (midias p)\<rparr>)"
    by (simp add: r)
  {
    assume "midiaId \<notin> set (map midia_id (midias p))"
    then have "filter (\<lambda>m. midia_id m \<noteq> midiaId) (midias p) = midias p"
      by (rule filter_no_match)
    with save_doc_found [OF f]
    show "remove_media cast s playlistId midiaId = (s, respond 200 (MidiasJson (midias p)))"
      by (simp add: r)
  }
  {
    fix m
    assume "distinct (map midia_id (midias p)) \<and> m \<in> set (midias p) \<and> midia_id m = midiaId"
    then show "filter (\<lambda>m. midia_id m \<noteq> midiaId) (midias p) = remove1 m (midias p)"
      using filter_one_match [of midia_id "midias p" m] by auto
  }
qed

theorem remove_media_filters_witness:
  "hex24 ''650000000000000000000001'' = Some ''650000000000000000000001'' \<and>
   find (\<lambda>p. pl_id p = ''650000000000000000000001'') (playlists example) = Some lobby \<and>
   snd (remove_media hex24 example ''650000000000000000000001'' ''65000000000000000000000a'') =
     respond 200 (MidiasJson
       [\<lparr>midia_id = ''65000000000000000000000b'', midia_name = Some ''b.png'',
         midia_url = Some ''/uploads/1700000000001.png''\<rparr>]) \<and>
   distinct (map midia_id (midias lobby)) \<and>
   filter (\<lambda>m. midia_id m \<noteq> ''65000000000000000000000a'') (midias lobby) =
     remove1 (hd (midias lobby)) (midias lobby) \<and>
   ''65000000000000000000000c'' \<notin> set (map midia_id (midias lobby)) \<and>
   remove_media hex24 example ''650000000000000000000001'' ''65000000000000000000000c'' =
     (example, respond 200 (MidiasJson (midias lobby))) \<and>
   hex24 ''650000000000000000000002'' = Some ''650000000000000000000002'' \<and>
   find (\<lambda>p. pl_id p = ''650000000000000000000002'') (playlists example) = None \<and>
   remove_media hex24 example ''650000000000000000000002'' ''65000000000000000000000a'' =
     (example, respond 404 (Plain PlaylistNaoEncontrada))"
proof -
  have n: "find (\<lambda>p. pl_id p = ''650000000000000000000002'') (playlists example) = None"
    by (simp add: example_def lobby_def)
  have c: "''65000000000000000000000c'' \<notin> set (map midia_id (midias lobby))"
    by (simp add: lobby_def)
  have a: "filter (\<lambda>m. midia_id m \<noteq> ''65000000000000000000000a'') (midias lobby) =
      [\<lparr>midia_id = ''65000000000000000000000b'', midia_name = Some ''b.png'',
        midia_url = Some ''/uploads/1700000000001.png''\<rparr>]"
    by (simp add: lobby_def)
  from remove_media_filters [where cast = hex24 and s = example and
      midiaId = "''65000000000000000000000a''", OF hex24_lobby]
    remove_media_filters [where cast = hex24 and s = example and
      midiaId = "''65000000000000000000000c''", OF hex24_lobby]
    remove_media_filters [where cast = hex24 and s = example and
      midiaId = "''65000000000000000000000a''", OF hex24_other]
    find_lobby n c a
  show ?thesis
    by (simp add: hex24_lobby hex24_other) (simp add: lobby_def)
qed

text \<open>
  Claim C7: removing a media item never touches the upload directory: every stored
  file, the one the removed item points to included, is there afterwards with the same
  bytes.
\<close>

theorem remove_media_keeps_files:
  "uploads (fst (remove_media cast s playlistId midiaId)) = uploads s"
  by (simp add: remove_media_def findById_def split: option.splits)

theorem remove_media_orphan:
  "snd (remove_media hex24 example ''650000000000000000000001'' ''65000000000000000000000a'') =
     respond 200 (MidiasJson
       [\<lparr>midia_id = ''65000000000000000000000b'', midia_name = Some ''b.png'',
         midia_url = Some ''/uploads/1700000000001.png''\<rparr>]) \<and>
   uploads (fst (remove_media hex24 example ''650000000000000000000001''
       ''65000000000000000000000a'')) ''1700000000000.png'' = Some ''A''"
proof -
  have "uploads example ''1700000000000.png'' = Some ''A''"
    by (simp add: example_def)
  with remove_media_keeps_files
    [of hex24 example "''650000000000000000000001''" "''65000000000000000000000a''"]
  show ?thesis
    by (simp add: remove_media_def findById_def hex24_lobby find_lobby) (simp add: lobby_def)
qed

subsection \<open>Storage names\<close>

lemma digit_inj: "a < 10 \<Longrightarrow> b < 10 \<Longrightarrow> digit a = digit b \<Longrightarrow> a = b"
proof -
  assume a: "a < 10" and b: "b < 10" and e: "digit a = digit b"
  have d: "distinct ''0123456789''" by simp
  from a b have "a < length ''0123456789''" and "b < length ''0123456789''" by simp_all
  with d e show "a = b"
    unfolding digit_def by (simp only: nth_eq_iff_index_eq)
qed

lemma digit_mem: "d < 10 \<Longrightarrow> digit d \<in> set ''0123456789''"
proof -
  assume "d < 10"
  then have "d < length ''0123456789''" by simp
  then show ?thesis unfolding digit_def by (rule nth_mem)
qed

lemma dec_nonempty: "dec n \<noteq> []"
  by (subst dec.simps) simp

lemma dec_digits: "set (dec n) \<subseteq> set ''0123456789''"
proof (induction n rule: dec.induct)
  case (1 n)
  show ?case
  proof (cases "n < 10")
    case True
    then show ?thesis using digit_mem [of n] by (subst dec.simps) simp
  next
    case False
    have "n mod 10 < 10" by simp
    then have "digit (n mod 10) \<in> set ''0123456789''" by (rule digit_mem)
    with False 1 show ?thesis by (subst dec.simps) simp
  qed
qed

lemma dec_inj: "dec a = dec b \<Longrightarrow> a = b"
proof (induction a arbitrary: b rule: dec.induct)
  case (1 n)
  show ?case
  proof (cases "n < 10")
    case True
    note n = True
    show ?thesis
    proof (cases "b < 10")
      case True
      with n "1.prems" show ?thesis
        by (simp add: dec.simps [of n] dec.simps [of b] digit_inj)
    next
      case False
      with n "1.prems" dec_nonempty [of "b div 10"] show ?thesis
        by (simp add: dec.simps [of n] dec.simps [of b] Cons_eq_append_conv)
    qed
  next
    case False
    note n = False
    show ?thesis
    proof (cases "b < 10")
      case True
      with n "1.prems" dec_nonempty [of "n div 10"] show ?thesis
        by (simp add: dec.simps [of n] dec.simps [of b] append_eq_Cons_conv)
    next
      case False
      with n "1.prems" have e: "dec (n div 10) = dec (b div 10)"
        and d: "digit (n mod 10) = digit (b mod 10)"
        by (simp_all add: dec.simps [of n] dec.simps [of b])
      from "1.IH" [OF n e] have q: "n div 10 = b div 10" .
      have "n mod 10 < 10" and "b mod 10 < 10" by simp_all
      then have r: "n mod 10 = b mod 10" using d by (rule digit_inj)
      from q r show ?thesis
        by (metis div_mult_mod_eq)
    qed
  qed
qed

lemma extname_dotted: "extname p = [] \<or> (\<exists>r. extname p = CHR ''.'' # r)"
  by (simp add: extname_def Let_def)

lemma takeWhile_stop:
  "\<forall>x\<in>set xs. P x \<Longrightarrow> e = [] \<or> (\<exists>y r. e = y # r \<and> \<not> P y) \<Longrightarrow> takeWhile P (xs @ e) = xs"
  by auto

lemma digits_prefix:
  assumes "e = [] \<or> (\<exists>r. e = CHR ''.'' # r)"
  shows "takeWhile (\<lambda>c. c \<in> set ''0123456789'') (dec n @ e) = dec n"
proof (rule takeWhile_stop)
  show "\<forall>x\<in>set (dec n). x \<in> set ''0123456789''"
    using dec_digits [of n] by blast
  show "e = [] \<or> (\<exists>y r. e = y # r \<and> y \<notin> set ''0123456789'')"
    using assms by auto
qed

lemma filename_eq_iff:
  "filename p = filename q \<longleftrightarrow>
     arrival p = arrival q \<and> extname (originalname p) = extname (originalname q)"
proof
  assume e: "filename p = filename q"
  have "dec (arrival p) = takeWhile (\<lambda>c. c \<in> set ''0123456789'') (filename p)"
    unfolding filename_def by (rule digits_prefix [OF extname_dotted, symmetric])
  also have "\<dots> = takeWhile (\<lambda>c. c \<in> set ''0123456789'') (filename q)"
    by (simp only: e)
  also have "\<dots> = dec (arrival q)"
    unfolding filename_def by (rule digits_prefix [OF extname_dotted])
  finally have d: "dec (arrival p) = dec (arrival q)" .
  then have "arrival p = arrival q" by (rule dec_inj)
  moreover from e d have "extname (originalname p) = extname (originalname q)"
    by (simp add: filename_def)
  ultimately show "arrival p = arrival q \<and> extname (originalname p) = extname (originalname q)"
    by simp
next
  assume "arrival p = arrival q \<and> extname (originalname p) = extname (originalname q)"
  then show "filename p = filename q" by (simp add: filename_def)
qed


lemma last_segment_whole: "CHR ''/'' \<notin> set p \<Longrightarrow> last_segment p = p"
proof -
  assume n: "CHR ''/'' \<notin> set p"
  then have d: "dropWhile (\<lambda>c. c = CHR ''/'') (rev p) = rev p"
    by (cases "rev p") auto
  from n have "\<forall>x\<in>set (rev p). x \<noteq> CHR ''/''" by auto
  then have k: "takeWhile (\<lambda>c. c \<noteq> CHR ''/'') (rev p) = rev p"
    by (simp only: takeWhile_eq_all_conv)
  show ?thesis
    unfolding last_segment_def d k by simp
qed

lemma last_segment_no_slash: "CHR ''/'' \<notin> set (last_segment p)"
  using set_takeWhileD [of "CHR ''/''" "\<lambda>c. c \<noteq> CHR ''/''"] by (auto simp: last_segment_def)

lemma extname_shape:
  "extname p = [] \<or>
   (\<exists>a. extname p = CHR ''.'' # a \<and> CHR ''.'' \<notin> set a \<and> CHR ''/'' \<notin> set a)"
proof -
  let ?seg = "last_segment p"
  let ?a = "rev (takeWhile (\<lambda>c. c \<noteq> CHR ''.'') (rev ?seg))"
  have d: "CHR ''.'' \<notin> set ?a"
    using set_takeWhileD [of "CHR ''.''" "\<lambda>c. c \<noteq> CHR ''.''"] by auto
  have "set ?a \<subseteq> set ?seg"
    using set_takeWhileD [of _ "\<lambda>c. c \<noteq> CHR ''.''" "rev ?seg"] by auto
  with last_segment_no_slash [of p] have s: "CHR ''/'' \<notin> set ?a" by blast
  from d s show ?thesis
    by (simp add: extname_def Let_def)
qed

lemma extname_digits: "extname (dec n) = []"
proof -
  have "CHR ''/'' \<notin> set ''0123456789''" and "CHR ''.'' \<notin> set ''0123456789''" by simp_all
  with dec_digits [of n] have "CHR ''/'' \<notin> set (dec n)" and "CHR ''.'' \<notin> set (dec n)" by blast+
  then show ?thesis by (simp add: extname_def last_segment_whole)
qed

lemma extname_digits_dot:
  assumes "CHR ''.'' \<notin> set a" and "CHR ''/'' \<notin> set a"
  shows "extname (dec n @ CHR ''.'' # a) = CHR ''.'' # a"
proof -
  let ?p = "dec n @ CHR ''.'' # a"
  have "CHR ''/'' \<notin> set ''0123456789''" by simp
  with dec_digits [of n] have "CHR ''/'' \<notin> set (dec n)" by blast
  with assms have "CHR ''/'' \<notin> set ?p" by simp
  then have seg: "last_segment ?p = ?p" by (rule last_segment_whole)
  have t: "takeWhile (\<lambda>c. c \<noteq> CHR ''.'') (rev a @ CHR ''.'' # rev (dec n)) = rev a"
    using assms(1) by (intro takeWhile_stop) auto
  obtain c cs where c: "dec n = c # cs"
    using dec_nonempty [of n] by (cases "dec n") auto
  with dec_digits [of n] have "c \<in> set ''0123456789''" by auto
  then have "c \<noteq> CHR ''.''" by auto
  with c have "?p \<noteq> ''..''" by simp
  moreover from c have "Suc (length a) \<noteq> length ?p" by simp
  ultimately show ?thesis
    unfolding extname_def seg by (simp add: Let_def t)
qed

lemma extname_filename: "extname (filename p) = extname (originalname p)"
proof -
  from extname_shape [of "originalname p"]
  show ?thesis
  proof
    assume "extname (originalname p) = []"
    then show ?thesis by (simp add: filename_def extname_digits)
  next
    assume "\<exists>a. extname (originalname p) = CHR ''.'' # a \<and> CHR ''.'' \<notin> set a \<and> CHR ''/'' \<notin> set a"
    then obtain a where "extname (originalname p) = CHR ''.'' # a"
      and "CHR ''.'' \<notin> set a" and "CHR ''/'' \<notin> set a" by blast
    then show ?thesis by (simp add: filename_def extname_digits_dot)
  qed
qed

lemma filename_c: "filename file_c = ''1700000000005.png''"
  by (simp add: filename_def file_c_def dec.simps digit_def extname_def last_segment_def)


lemma filename_e: "filename file_e = ''1700000000005.png''"
  by (simp add: filename_def file_e_def dec.simps digit_def extname_def last_segment_def)

text \<open>
  Claim C6, as stated: two distinct uploaded files never receive the same storage
  name, so no save overwrites a stored file, even for two uploads at the same time.
  The files \<^verbatim>\<open>c.png\<close> and \<^verbatim>\<open>e.png\<close>, named in the same millisecond, receive the
  same name, and after both are written the directory holds the bytes of the second
  under it.
\<close>

theorem same_millisecond_overwrites:
  "file_c \<noteq> file_e \<and> filename file_c = filename file_e \<and>
   uploads (disk_write (disk_write example file_c) file_e) (filename file_c) = Some ''E'' \<and>
   content file_c = ''C''"
  by (simp add: disk_write_def filename_c filename_e) (simp add: file_c_def file_e_def)

text \<open>
  Claim C6, amended: the storage name of a file is the decimal text of the millisecond
  at which it is named followed by the extension of its original name, and has that
  extension. Two files receive the same name exactly when they are named in the same
  millisecond and their original names have the same extension. Files named in
  different milliseconds are both in the directory, each with its own bytes, after the
  two writes.
\<close>

theorem storage_name:
  "extname (filename p) = extname (originalname p) \<and>
   (filename p = filename q \<longleftrightarrow>
      arrival p = arrival q \<and> extname (originalname p) = extname (originalname q)) \<and>
   (arrival p \<noteq> arrival q \<longrightarrow>
      uploads (disk_write (disk_write s p) q) (filename p) = Some (content p) \<and>
      uploads (disk_write (disk_write s p) q) (filename q) = Some (content q))"
proof -
  have "uploads (disk_write (disk_write s p) q) (filename p) = Some (content p) \<and>
      uploads (disk_write (disk_write s p) q) (filename q) = Some (content q)"
    if "arrival p \<noteq> arrival q"
  proof -
    from that have "filename p \<noteq> filename q" by (simp add: filename_eq_iff)
    then show ?thesis by (simp add: disk_write_def)
  qed
  with extname_filename [of p] filename_eq_iff [of p q] show ?thesis by blast
qed

theorem storage_name_witness:
  "arrival file_c \<noteq> arrival file_d \<and>
   extname (filename file_c) = ''.png'' \<and>
   filename file_c \<noteq> filename file_d \<and>
   uploads (disk_write (disk_write example file_c) file_d) (filename file_c) = Some ''C'' \<and>
   uploads (disk_write (disk_write example file_c) file_d) (filename file_d) = Some ''D''"
proof -
  have a: "arrival file_c \<noteq> arrival file_d" by (simp add: file_c_def file_d_def)
  have x: "extname (originalname file_c) = ''.png''"
    by (simp add: file_c_def extname_def last_segment_def)
  have c: "content file_c = ''C''" "content file_d = ''D''" by (simp_all add: file_c_def file_d_def)
  from storage_name [of file_c file_d example] a x c show ?thesis by simp
qed

subsection \<open>Uploading media to a playlist\<close>


lemma monitors_written: "monitors (foldl disk_write s ps) = monitors s"
  by (induction ps arbitrary: s) (simp_all add: disk_write_def)

lemma dom_written: "dom (uploads (foldl disk_write s ps)) = dom (uploads s) \<union> filename ` set ps"
  by (induction ps arbitrary: s) (auto simp: disk_write_def)




lemma ids_subdocs: "map midia_id (subdocs newid k fs) = map newid [k..<k + length fs]"
proof (induction fs arbitrary: k)
  case Nil
  then show ?case by simp
next
  case (Cons f fs)
  have "[k..<k + length (f # fs)] = k # [Suc k..<Suc k + length fs]"
    by (simp add: upt_rec)
  with Cons show ?case by simp
qed












end
